theory Spec2Isabelle
  imports Main "HOL-Library.Product_Lexorder" "HOL-Library.Multiset"
begin

section \<open>Requests and JavaScript values\<close>

text \<open>
  A timestamp is a JavaScript \<open>Date\<close>: milliseconds since the Unix epoch, so that
  \<open>new Date(0)\<close> is \<open>0\<close>. The clock reading of a request (\<open>new Date()\<close>,
  \<open>NOW()\<close>, \<open>CURRENT_TIMESTAMP\<close>) is the parameter \<open>now\<close> of every handler.
\<close>

type_synonym timestamp = int

text \<open>
  A property read off a JSON body is missing (\<open>undefined\<close>), \<open>null\<close> or a value.
\<close>

datatype 'a js = Undefined | Null | Val 'a

text \<open>
  The part of the Express request the handlers read: \<open>req.user\<close> as set by
  \<open>authenticateToken\<close>, the \<open>X-Device-ID\<close> header and \<open>req.ip\<close>.
\<close>

record request =
  user_id :: nat
  user_role :: string
  x_device_id :: "string option"
  ip :: string

text \<open>
  auth.js, line 32: \<open>req.deviceId = req.headers["x-device-id"] || null\<close>. An empty
  header is falsy, so it gives \<open>null\<close> as well.
\<close>

definition deviceId :: "request \<Rightarrow> string option" where
  "deviceId req =
     (case x_device_id req of
        None \<Rightarrow> None
      | Some h \<Rightarrow> if h = [] then None else Some h)"

text \<open>\<open>req.deviceId || "unknown"\<close>\<close>

definition deviceId_or_unknown :: "request \<Rightarrow> string" where
  "deviceId_or_unknown req =
     (case deviceId req of None \<Rightarrow> ''unknown'' | Some d \<Rightarrow> d)"

section \<open>Tables\<close>

text \<open>
  The table declarations are not among the sources; the columns are the ones the
  statements of the routes name. Integer columns are unbounded here: no statement of
  the routes computes on them except \<open>version + 1\<close>.
\<close>

record module_row =
  m_id :: nat
  m_uuid :: string
  m_category_id :: "nat option"
  m_title :: string
  m_description :: "string option"
  m_content :: string
  m_thumbnail_url :: "string option"
  m_is_downloadable :: bool
  m_priority :: int
  m_is_active :: bool
  m_version :: int
  m_updated_at :: timestamp

text \<open>
  Modelled from the spec: the declaration of table \<open>meca_aids\<close> is missing, and no
  statement of the routes names a version column of it. The spec's data model gives
  every ContentItem (module or diagnostic aid) a \<open>version\<close>; \<open>ma_version\<close> is that
  field.
\<close>

record meca_aid_row =
  ma_id :: nat
  ma_uuid :: string
  ma_category_id :: "nat option"
  ma_title :: string
  ma_problem_description :: string
  ma_symptoms :: "string option"
  ma_causes :: "string option"
  ma_solutions :: string
  ma_tools_required :: "string option"
  ma_difficulty_level :: string
  ma_estimated_time :: "string option"
  ma_is_active :: bool
  ma_version :: int
  ma_updated_at :: timestamp

record step_row =
  st_meca_aid_id :: nat
  st_step_number :: nat
  st_instruction :: string

record category_row =
  cat_id :: nat
  cat_name :: string
  cat_is_active :: bool
  cat_sort_order :: int

record download_row =
  dm_user_id :: nat
  dm_module_id :: nat
  dm_device_id :: string
  dm_downloaded_version :: int
  dm_downloaded_at :: timestamp

record activity_row =
  ua_user_id :: nat
  ua_device_id :: "string option"
  ua_activity_type :: "string option"
  ua_reference_id :: "nat option"
  ua_reference_type :: "string option"
  ua_metadata :: "string option"
  ua_duration_seconds :: "nat option"
  ua_ip_address :: "string option"
  ua_created_at :: timestamp

record sync_log_row =
  sl_user_id :: nat
  sl_device_id :: "string option"
  sl_sync_type :: string
  sl_items_synced :: nat
  sl_last_sync_at :: timestamp

record db =
  modules :: "module_row list"
  meca_aids :: "meca_aid_row list"
  meca_aid_steps :: "step_row list"
  module_categories :: "category_row list"
  meca_aid_categories :: "category_row list"
  app_settings :: "(string \<times> string) list"
  downloaded_modules :: "download_row list"
  user_activities :: "activity_row list"
  sync_logs :: "sync_log_row list"

section \<open>GET sync/full\<close>

text \<open>
  The rows of the two item queries: the table's columns, the joined
  \<open>category_name\<close>, and for a meca aid the \<open>steps\<close> the handler attaches.
\<close>

record module_out =
  mo_row :: module_row
  mo_category_name :: "string option"

record meca_aid_out =
  mao_row :: meca_aid_row
  mao_category_name :: "string option"
  mao_steps :: "step_row list"

text \<open>
  \<open>LEFT JOIN ... ON m.category_id = mc.id\<close>: the name of the category with that id
  (\<open>id\<close> is the primary key, so at most one row joins), \<open>NULL\<close> when there is none.
\<close>

definition category_name :: "category_row list \<Rightarrow> nat option \<Rightarrow> string option" where
  "category_name cats cid =
     (case cid of
        None \<Rightarrow> None
      | Some c \<Rightarrow> map_option cat_name (find (\<lambda>k. cat_id k = c) cats))"

text \<open>\<open>SELECT m.*, mc.name ... WHERE m.is_active = true AND m.updated_at > ?\<close>\<close>

definition select_modules_since :: "db \<Rightarrow> timestamp \<Rightarrow> module_out list" where
  "select_modules_since s sinceDate =
     map (\<lambda>m. \<lparr>mo_row = m,
               mo_category_name = category_name (module_categories s) (m_category_id m)\<rparr>)
         (filter (\<lambda>m. m_is_active m \<and> sinceDate < m_updated_at m) (modules s))"

text \<open>
  \<open>SELECT ma.*, mac.name ... WHERE ma.is_active = true AND ma.updated_at > ?\<close>. The
  rows come without \<open>steps\<close>; the field is empty until the handler assigns it.
\<close>

definition select_meca_aids_since :: "db \<Rightarrow> timestamp \<Rightarrow> meca_aid_out list" where
  "select_meca_aids_since s sinceDate =
     map (\<lambda>a. \<lparr>mao_row = a,
               mao_category_name = category_name (meca_aid_categories s) (ma_category_id a),
               mao_steps = []\<rparr>)
         (filter (\<lambda>a. ma_is_active a \<and> sinceDate < ma_updated_at a) (meca_aids s))"

text \<open>
  \<open>SELECT * FROM meca_aid_steps WHERE meca_aid_id IN (ids) ORDER BY meca_aid_id,
  step_number\<close>
\<close>

definition select_steps_in :: "db \<Rightarrow> nat list \<Rightarrow> step_row list" where
  "select_steps_in s ids =
     sort_key (\<lambda>st. (st_meca_aid_id st, st_step_number st))
       (filter (\<lambda>st. st_meca_aid_id st \<in> set ids) (meca_aid_steps s))"

text \<open>\<open>SELECT * FROM ... WHERE is_active = true ORDER BY sort_order\<close>\<close>

definition select_active_categories :: "category_row list \<Rightarrow> category_row list" where
  "select_active_categories cats = sort_key cat_sort_order (filter cat_is_active cats)"

text \<open>
  \<open>settings.forEach((s) => { settingsObj[s.setting_key] = s.setting_value })\<close>
\<close>

definition settingsObj :: "(string \<times> string) list \<Rightarrow> (string \<rightharpoonup> string)" where
  "settingsObj settings = fold (\<lambda>(k, v) obj. obj(k \<mapsto> v)) settings Map.empty"

text \<open>The statements a handler sends to the database, in the order it sends them.\<close>

datatype statement =
    SelectModulesSince timestamp
  | SelectMecaAidsSince timestamp
  | SelectStepsIn "nat list"
  | SelectModuleCategories
  | SelectMecaAidCategories
  | SelectAppSettings
  | InsertSyncLog nat "string option" nat


record delta_payload =
  dp_modules :: "module_out list"
  dp_mecaAids :: "meca_aid_out list"
  dp_moduleCategories :: "category_row list"
  dp_mecaAidCategories :: "category_row list"
  dp_settings :: "string \<rightharpoonup> string"
  dp_syncedAt :: timestamp
  dp_nextSyncRecommended :: timestamp

text \<open>
  \<open>mecaAids.forEach((ma) => { ma.steps = steps.filter((s) => s.meca_aid_id === ma.id) })\<close>
\<close>

definition attach_steps :: "step_row list \<Rightarrow> meca_aid_out list \<Rightarrow> meca_aid_out list" where
  "attach_steps steps mecaAids =
     map (\<lambda>ma. ma\<lparr>mao_steps := filter (\<lambda>st. st_meca_aid_id st = ma_id (mao_row ma)) steps\<rparr>)
         mecaAids"

text \<open>
  The handler of \<open>GET /full\<close>. \<open>lastSync\<close> is the query parameter: \<open>None\<close> when it
  is omitted or empty (both falsy), \<open>Some t\<close> when \<open>new Date(lastSync)\<close> is the
  time \<open>t\<close>. The result is the JSON payload, the statements sent, and the database
  after the insert into \<open>sync_logs\<close>. The declaration of \<open>sync_logs\<close> is missing:
  the insert names no \<open>last_sync_at\<close>, which is taken to default to the current
  time, and \<open>device_id\<close> is taken to be nullable, as binding the raw
  \<open>req.deviceId\<close> presupposes. The handler's only error path is an exception of the
  database connection, which is outside this model.
\<close>

definition compute_delta ::
  "request \<Rightarrow> timestamp option \<Rightarrow> timestamp \<Rightarrow> db \<Rightarrow> delta_payload \<times> statement list \<times> db" where
  "compute_delta req lastSync now s =
     (let sinceDate = (case lastSync of Some t \<Rightarrow> t | None \<Rightarrow> 0);
          modules = select_modules_since s sinceDate;
          mecaAids0 = select_meca_aids_since s sinceDate;
          ids = map (\<lambda>m. ma_id (mao_row m)) mecaAids0;
          fetched = (if length mecaAids0 > 0 then [SelectStepsIn ids] else []);
          mecaAids = (if length mecaAids0 > 0
                      then attach_steps (select_steps_in s ids) mecaAids0
                      else mecaAids0);
          items_synced = length modules + length mecaAids;
          log = \<lparr>sl_user_id = user_id req, sl_device_id = deviceId req,
                 sl_sync_type = ''full'', sl_items_synced = items_synced,
                 sl_last_sync_at = now\<rparr>
      in (\<lparr>dp_modules = modules,
           dp_mecaAids = mecaAids,
           dp_moduleCategories = select_active_categories (module_categories s),
           dp_mecaAidCategories = select_active_categories (meca_aid_categories s),
           dp_settings = settingsObj (app_settings s),
           dp_syncedAt = now,
           dp_nextSyncRecommended = now + 60 * 60 * 1000\<rparr>,
          [SelectModulesSince sinceDate, SelectMecaAidsSince sinceDate] @ fetched @
          [SelectModuleCategories, SelectMecaAidCategories, SelectAppSettings,
           InsertSyncLog (user_id req) (deviceId req) items_synced],
          s\<lparr>sync_logs := sync_logs s @ [log]\<rparr>))"

section \<open>GET sync/check\<close>

record check_payload =
  cp_hasUpdates :: bool
  cp_message :: "string option"
  cp_updates :: "(nat \<times> nat) option"
  cp_serverTime :: "timestamp option"

text \<open>
  The handler of \<open>GET /check\<close>: without \<open>lastSync\<close> it answers at once; otherwise
  it runs the two \<open>SELECT COUNT(*) ... WHERE is_active = true AND updated_at > ?\<close>.
\<close>

definition check_for_updates :: "timestamp option \<Rightarrow> timestamp \<Rightarrow> db \<Rightarrow> check_payload" where
  "check_for_updates lastSync now s =
     (case lastSync of
        None \<Rightarrow> \<lparr>cp_hasUpdates = True, cp_message = Some ''Initial sync required'',
                 cp_updates = None, cp_serverTime = None\<rparr>
      | Some sinceDate \<Rightarrow>
          (let modulesCount =
                 length (filter (\<lambda>m. m_is_active m \<and> sinceDate < m_updated_at m) (modules s));
               mecaAidsCount =
                 length (filter (\<lambda>a. ma_is_active a \<and> sinceDate < ma_updated_at a) (meca_aids s))
           in \<lparr>cp_hasUpdates = (modulesCount > 0 \<or> mecaAidsCount > 0),
               cp_message = None,
               cp_updates = Some (modulesCount, mecaAidsCount),
               cp_serverTime = Some now\<rparr>))"

section \<open>GET sync/downloads\<close>

text \<open>
  \<open>SELECT dm.*, m.uuid, m.title, m.version as current_version, CASE WHEN
  dm.downloaded_version < m.version THEN true ELSE false END as needs_update FROM
  downloaded_modules dm JOIN modules m ON dm.module_id = m.id WHERE dm.user_id = ? AND
  dm.device_id = ?\<close>, bound to \<open>req.user.id\<close> and \<open>req.deviceId || "unknown"\<close>.
\<close>

record download_status =
  ds_row :: download_row
  ds_uuid :: string
  ds_title :: string
  ds_current_version :: int
  ds_needs_update :: bool

definition get_download_status :: "request \<Rightarrow> db \<Rightarrow> download_status list" where
  "get_download_status req s =
     concat (map (\<lambda>dm. map (\<lambda>m. \<lparr>ds_row = dm, ds_uuid = m_uuid m, ds_title = m_title m,
                                   ds_current_version = m_version m,
                                   ds_needs_update = (dm_downloaded_version dm < m_version m)\<rparr>)
                            (filter (\<lambda>m. dm_module_id dm = m_id m) (modules s)))
                 (filter (\<lambda>dm. dm_user_id dm = user_id req \<and>
                                dm_device_id dm = deviceId_or_unknown req)
                         (downloaded_modules s)))"

section \<open>Responses\<close>

text \<open>
  A handler answers with \<open>res.json\<close> (\<open>Success\<close>), with
  \<open>res.status(code).json({success: false, message})\<close> (\<open>Rejected\<close>), or hands an
  exception to \<open>next(error)\<close> (\<open>Thrown\<close>).
\<close>

datatype 'a response = Success 'a | Rejected nat string | Thrown

section \<open>POST modules/:uuid/download\<close>

definition download_key :: "download_row \<Rightarrow> nat \<times> nat \<times> string" where
  "download_key r = (dm_user_id r, dm_module_id r, dm_device_id r)"

text \<open>
  \<open>INSERT INTO downloaded_modules (user_id, module_id, device_id, downloaded_version)
  VALUES (?, ?, ?, ?) ON DUPLICATE KEY UPDATE downloaded_version =
  VALUES(downloaded_version), downloaded_at = NOW()\<close>.
  Modelled from the spec: the declaration of \<open>downloaded_modules\<close> is missing; the
  spec gives it the unique composite key (userId, moduleId, deviceId), and the
  \<open>downloaded_at\<close> of a new row is taken to default to the current time.
\<close>

definition upsert_download ::
  "nat \<Rightarrow> nat \<Rightarrow> string \<Rightarrow> int \<Rightarrow> timestamp \<Rightarrow> download_row list \<Rightarrow> download_row list" where
  "upsert_download u m d v now rows =
     (if (u, m, d) \<in> set (map download_key rows)
      then map (\<lambda>r. if download_key r = (u, m, d)
                     then r\<lparr>dm_downloaded_version := v, dm_downloaded_at := now\<rparr>
                     else r) rows
      else rows @ [\<lparr>dm_user_id = u, dm_module_id = m, dm_device_id = d,
                     dm_downloaded_version = v, dm_downloaded_at = now\<rparr>])"

text \<open>
  The handler of \<open>POST /:uuid/download\<close>. The version recorded is the one the module
  has at the time of the call. The insert into \<open>user_activities\<close> comes after the
  upsert and outside any transaction: when the table refuses the row (\<open>accepts\<close>, see
  below), the exception goes to \<open>next(error)\<close> and the upsert stays. The read of
  \<open>module_attachments\<close> that follows changes nothing and is left out of the payload.
\<close>

definition record_download ::
  "(activity_row \<Rightarrow> bool) \<Rightarrow> request \<Rightarrow> string \<Rightarrow> timestamp \<Rightarrow> db \<Rightarrow> module_row response \<times> db" where
  "record_download accepts req uuid now s =
     (case filter (\<lambda>m. m_uuid m = uuid \<and> m_is_active m \<and> m_is_downloadable m) (modules s) of
        [] \<Rightarrow> (Rejected 404 ''Module not found or not downloadable'', s)
      | module # _ \<Rightarrow>
          (let s1 = s\<lparr>downloaded_modules :=
                        upsert_download (user_id req) (m_id module) (deviceId_or_unknown req)
                          (m_version module) now (downloaded_modules s)\<rparr>;
               activity = \<lparr>ua_user_id = user_id req, ua_device_id = deviceId req,
                           ua_activity_type = Some ''module_download'',
                           ua_reference_id = Some (m_id module),
                           ua_reference_type = Some ''module'',
                           ua_metadata = None, ua_duration_seconds = None,
                           ua_ip_address = None, ua_created_at = now\<rparr>
           in if accepts activity
              then (Success module, s1\<lparr>user_activities := user_activities s1 @ [activity]\<rparr>)
              else (Thrown, s1)))"

section \<open>PUT and DELETE of modules and meca aids\<close>

text \<open>
  \<open>db.execute\<close> is the prepared-statement call of the MySQL driver (the handlers
  destructure its result as \<open>[rows]\<close> and read \<open>insertId\<close>): it throws when a bind
  parameter is \<open>undefined\<close>, and sends \<open>null\<close> as SQL \<open>NULL\<close>.
\<close>

definition is_undefined :: "'a js \<Rightarrow> bool" where
  "is_undefined x = (case x of Undefined \<Rightarrow> True | _ \<Rightarrow> False)"

text \<open>\<open>COALESCE(?, column)\<close> on a column that is not nullable, and on one that is.\<close>

definition coalesce :: "'a js \<Rightarrow> 'a \<Rightarrow> 'a" where
  "coalesce x old = (case x of Val v \<Rightarrow> v | _ \<Rightarrow> old)"

definition coalesce_opt :: "'a js \<Rightarrow> 'a option \<Rightarrow> 'a option" where
  "coalesce_opt x old = (case x of Val v \<Rightarrow> Some v | _ \<Rightarrow> old)"

record module_update =
  title :: "string js"
  description :: "string js"
  content :: "string js"
  categoryId :: "nat js"
  thumbnailUrl :: "string js"
  isDownloadable :: "bool js"
  priority :: "int js"
  isActive :: "bool js"

definition module_update_bindable :: "module_update \<Rightarrow> bool" where
  "module_update_bindable b =
     (\<not> (is_undefined (title b) \<or> is_undefined (description b) \<or> is_undefined (content b) \<or>
         is_undefined (categoryId b) \<or> is_undefined (thumbnailUrl b) \<or>
         is_undefined (isDownloadable b) \<or> is_undefined (priority b) \<or>
         is_undefined (isActive b)))"

text \<open>
  \<open>UPDATE modules SET title = COALESCE(?, title), ..., version = version + 1 WHERE
  uuid = ?\<close> on one row.
  Modelled from the spec: the statement names no \<open>updated_at\<close>, and the declaration
  of \<open>modules\<close> that maintains the column is missing; the spec has \<open>updatedAt\<close> set
  on every mutation, so the row gets the current time.
\<close>

definition update_module_row :: "module_update \<Rightarrow> timestamp \<Rightarrow> module_row \<Rightarrow> module_row" where
  "update_module_row b now m =
     m\<lparr>m_title := coalesce (title b) (m_title m),
       m_description := coalesce_opt (description b) (m_description m),
       m_content := coalesce (content b) (m_content m),
       m_category_id := coalesce_opt (categoryId b) (m_category_id m),
       m_thumbnail_url := coalesce_opt (thumbnailUrl b) (m_thumbnail_url m),
       m_is_downloadable := coalesce (isDownloadable b) (m_is_downloadable m),
       m_priority := coalesce (priority b) (m_priority m),
       m_is_active := coalesce (isActive b) (m_is_active m),
       m_version := m_version m + 1,
       m_updated_at := now\<rparr>"

text \<open>
  The handler of \<open>PUT /:uuid\<close> of the module routes, behind \<open>requireRole("admin")\<close>.
  A \<open>uuid\<close> that no row has updates nothing and is answered with success all the same.
\<close>

definition put_module ::
  "request \<Rightarrow> string \<Rightarrow> module_update \<Rightarrow> timestamp \<Rightarrow> db \<Rightarrow> string response \<times> db" where
  "put_module req uuid b now s =
     (if user_role req \<noteq> ''admin'' then (Rejected 403 ''Insufficient permissions'', s)
      else if \<not> module_update_bindable b then (Thrown, s)
      else (Success ''Module updated'',
            s\<lparr>modules := map (\<lambda>m. if m_uuid m = uuid then update_module_row b now m else m)
                              (modules s)\<rparr>))"

text \<open>\<open>UPDATE modules SET is_active = false WHERE uuid = ?\<close>\<close>

definition delete_module :: "request \<Rightarrow> string \<Rightarrow> timestamp \<Rightarrow> db \<Rightarrow> string response \<times> db" where
  "delete_module req uuid now s =
     (if user_role req \<noteq> ''admin'' then (Rejected 403 ''Insufficient permissions'', s)
      else (Success ''Module deleted'',
            s\<lparr>modules := map (\<lambda>m. if m_uuid m = uuid
                                   then m\<lparr>m_is_active := False, m_updated_at := now\<rparr> else m)
                              (modules s)\<rparr>))"

record meca_aid_update =
  mu_title :: "string js"
  mu_problemDescription :: "string js"
  mu_symptoms :: "string js"
  mu_causes :: "string js"
  mu_solutions :: "string js"
  mu_toolsRequired :: "string js"
  mu_difficultyLevel :: "string js"
  mu_estimatedTime :: "string js"
  mu_categoryId :: "nat js"
  mu_isActive :: "bool js"

definition meca_aid_update_bindable :: "meca_aid_update \<Rightarrow> bool" where
  "meca_aid_update_bindable b =
     (\<not> (is_undefined (mu_title b) \<or> is_undefined (mu_problemDescription b) \<or>
         is_undefined (mu_symptoms b) \<or> is_undefined (mu_causes b) \<or>
         is_undefined (mu_solutions b) \<or> is_undefined (mu_toolsRequired b) \<or>
         is_undefined (mu_difficultyLevel b) \<or> is_undefined (mu_estimatedTime b) \<or>
         is_undefined (mu_categoryId b) \<or> is_undefined (mu_isActive b)))"

text \<open>
  \<open>UPDATE meca_aids SET title = COALESCE(?, title), ..., is_active = COALESCE(?,
  is_active) WHERE uuid = ?\<close> on one row: the statement assigns no version. The
  \<open>updated_at\<close> is modelled from the spec as for modules.
\<close>

definition update_meca_aid_row :: "meca_aid_update \<Rightarrow> timestamp \<Rightarrow> meca_aid_row \<Rightarrow> meca_aid_row" where
  "update_meca_aid_row b now a =
     a\<lparr>ma_title := coalesce (mu_title b) (ma_title a),
       ma_problem_description := coalesce (mu_problemDescription b) (ma_problem_description a),
       ma_symptoms := coalesce_opt (mu_symptoms b) (ma_symptoms a),
       ma_causes := coalesce_opt (mu_causes b) (ma_causes a),
       ma_solutions := coalesce (mu_solutions b) (ma_solutions a),
       ma_tools_required := coalesce_opt (mu_toolsRequired b) (ma_tools_required a),
       ma_difficulty_level := coalesce (mu_difficultyLevel b) (ma_difficulty_level a),
       ma_estimated_time := coalesce_opt (mu_estimatedTime b) (ma_estimated_time a),
       ma_category_id := coalesce_opt (mu_categoryId b) (ma_category_id a),
       ma_is_active := coalesce (mu_isActive b) (ma_is_active a),
       ma_updated_at := now\<rparr>"

definition put_meca_aid ::
  "request \<Rightarrow> string \<Rightarrow> meca_aid_update \<Rightarrow> timestamp \<Rightarrow> db \<Rightarrow> string response \<times> db" where
  "put_meca_aid req uuid b now s =
     (if user_role req \<noteq> ''admin'' then (Rejected 403 ''Insufficient permissions'', s)
      else if \<not> meca_aid_update_bindable b then (Thrown, s)
      else (Success ''Meca Aid updated'',
            s\<lparr>meca_aids := map (\<lambda>a. if ma_uuid a = uuid then update_meca_aid_row b now a else a)
                                (meca_aids s)\<rparr>))"

text \<open>\<open>UPDATE meca_aids SET is_active = false WHERE uuid = ?\<close>\<close>

definition delete_meca_aid :: "request \<Rightarrow> string \<Rightarrow> timestamp \<Rightarrow> db \<Rightarrow> string response \<times> db" where
  "delete_meca_aid req uuid now s =
     (if user_role req \<noteq> ''admin'' then (Rejected 403 ''Insufficient permissions'', s)
      else (Success ''Meca Aid deleted'',
            s\<lparr>meca_aids := map (\<lambda>a. if ma_uuid a = uuid
                                     then a\<lparr>ma_is_active := False, ma_updated_at := now\<rparr> else a)
                                (meca_aids s)\<rparr>))"

section \<open>POST sync/activities and POST activities/log\<close>

text \<open>
  An element of the \<open>activities\<close> array. \<open>JNull\<close> is a JSON \<open>null\<close>, on which
  reading a property throws; \<open>JObject\<close> is any other value with the properties the
  handlers read (all \<open>Undefined\<close> for a number or a string). In the properties the
  handlers test for truth (\<open>x || null\<close>, \<open>x ? ... : ...\<close>) a \<open>Val\<close> is a truthy
  value; for \<open>metadata\<close> it is the text \<open>JSON.stringify\<close> gives, for the two
  times the time \<open>new Date\<close> reads. The activity type is bound as it is.
\<close>

record activity_json =
  aj_deviceId :: "string js"
  aj_activityType :: "string js"
  aj_referenceId :: "nat js"
  aj_referenceType :: "string js"
  aj_metadata :: "string js"
  aj_durationSeconds :: "nat js"
  aj_timestamp :: "timestamp js"
  aj_createdAt :: "timestamp js"

datatype activity_item = JNull | JObject activity_json

text \<open>
  \<open>req.body.activities\<close>: missing or falsy, a truthy value that is not an array, or
  an array.
\<close>

datatype activities_body = NoActivities | NotAnArray | Activities "activity_item list"

text \<open>\<open>x || null\<close> and \<open>x ? f(x) : null\<close> on a value that is truthy when present.\<close>

definition or_null :: "'a js \<Rightarrow> 'a option" where
  "or_null x = (case x of Val v \<Rightarrow> Some v | _ \<Rightarrow> None)"

text \<open>\<open>x ? new Date(x) : new Date()\<close>\<close>

definition date_or_now :: "timestamp js \<Rightarrow> timestamp \<Rightarrow> timestamp" where
  "date_or_now x now = (case x of Val t \<Rightarrow> t | _ \<Rightarrow> now)"

text \<open>\<open>req.deviceId || activity.deviceId\<close>\<close>

definition activity_device :: "request \<Rightarrow> activity_json \<Rightarrow> string js" where
  "activity_device req a = (case deviceId req of Some d \<Rightarrow> Val d | None \<Rightarrow> aj_deviceId a)"

text \<open>
  The body of the \<open>try\<close> in the loop of \<open>POST /activities\<close>: \<open>None\<close> when it
  throws. It throws on a \<open>null\<close> element, on an \<open>undefined\<close> bind parameter (only
  the device id and the activity type can be one; the others are \<open>|| null\<close>), and when
  the table refuses the row. What \<open>user_activities\<close> refuses (its declaration is
  missing) is the parameter \<open>accepts\<close>.
\<close>

definition sync_activity ::
  "(activity_row \<Rightarrow> bool) \<Rightarrow> request \<Rightarrow> timestamp \<Rightarrow> activity_item \<Rightarrow> activity_row option" where
  "sync_activity accepts req now item =
     (case item of
        JNull \<Rightarrow> None
      | JObject a \<Rightarrow>
          if is_undefined (activity_device req a) \<or> is_undefined (aj_activityType a) then None
          else (let row = \<lparr>ua_user_id = user_id req,
                            ua_device_id = or_null (activity_device req a),
                            ua_activity_type = or_null (aj_activityType a),
                            ua_reference_id = or_null (aj_referenceId a),
                            ua_reference_type = or_null (aj_referenceType a),
                            ua_metadata = or_null (aj_metadata a),
                            ua_duration_seconds = or_null (aj_durationSeconds a),
                            ua_ip_address = Some (ip req),
                            ua_created_at = date_or_now (aj_timestamp a) now\<rparr>
                in if accepts row then Some row else None))"

text \<open>
  \<open>for (const activity of activities) { try { await db.execute(...); synced++ } catch
  (e) { console.error(...) } }\<close>
\<close>

fun sync_loop ::
  "(activity_row \<Rightarrow> bool) \<Rightarrow> request \<Rightarrow> timestamp \<Rightarrow> activity_item list \<Rightarrow> nat \<Rightarrow> db \<Rightarrow> nat \<times> db" where
  "sync_loop accepts req now [] synced s = (synced, s)"
| "sync_loop accepts req now (activity # rest) synced s =
     (case sync_activity accepts req now activity of
        Some row \<Rightarrow>
          sync_loop accepts req now rest (synced + 1)
            (s\<lparr>user_activities := user_activities s @ [row]\<rparr>)
      | None \<Rightarrow> sync_loop accepts req now rest synced s)"

text \<open>
  The handler of \<open>POST /activities\<close> of the sync routes. The success payload is the
  pair the message \<open>"${synced} of ${activities.length} activities synced"\<close> carries.
\<close>

definition sync_activities ::
  "(activity_row \<Rightarrow> bool) \<Rightarrow> request \<Rightarrow> activities_body \<Rightarrow> timestamp \<Rightarrow> db \<Rightarrow> (nat \<times> nat) response \<times> db" where
  "sync_activities accepts req body now s =
     (case body of
        Activities activities \<Rightarrow>
          (case sync_loop accepts req now activities 0 s of
             (synced, s') \<Rightarrow> (Success (synced, length activities), s'))
      | _ \<Rightarrow> (Rejected 400 ''Activities array required'', s))"

text \<open>
  The row \<open>POST /log\<close> of the activity routes builds for one element:
  \<open>req.deviceId || a.deviceId || null\<close>, the raw \<open>a.activityType\<close>, and
  \<open>a.createdAt\<close> for the time. \<open>None\<close> when building it throws or a bind parameter
  is \<open>undefined\<close>.
\<close>

definition log_row :: "request \<Rightarrow> timestamp \<Rightarrow> activity_item \<Rightarrow> activity_row option" where
  "log_row req now item =
     (case item of
        JNull \<Rightarrow> None
      | JObject a \<Rightarrow>
          if is_undefined (aj_activityType a) then None
          else Some \<lparr>ua_user_id = user_id req,
                     ua_device_id = or_null (activity_device req a),
                     ua_activity_type = or_null (aj_activityType a),
                     ua_reference_id = or_null (aj_referenceId a),
                     ua_reference_type = or_null (aj_referenceType a),
                     ua_metadata = or_null (aj_metadata a),
                     ua_duration_seconds = or_null (aj_durationSeconds a),
                     ua_ip_address = Some (ip req),
                     ua_created_at = date_or_now (aj_createdAt a) now\<rparr>)"

text \<open>
  The handler of \<open>POST /log\<close> of the activity routes, the batch path beside
  \<open>POST /activities\<close>: its guard has the third disjunct \<open>activities.length === 0\<close>,
  and it inserts all rows with one statement, so one bad element fails the call.
\<close>

definition log_activities ::
  "(activity_row \<Rightarrow> bool) \<Rightarrow> request \<Rightarrow> activities_body \<Rightarrow> timestamp \<Rightarrow> db \<Rightarrow> nat response \<times> db" where
  "log_activities accepts req body now s =
     (case body of
        Activities activities \<Rightarrow>
          if length activities = 0 then (Rejected 400 ''Activities array required'', s)
          else (let rows = map (log_row req now) activities
                in if list_all (\<lambda>r. case r of None \<Rightarrow> False | Some row \<Rightarrow> accepts row) rows
                   then (Success (length activities),
                         s\<lparr>user_activities := user_activities s @ map the rows\<rparr>)
                   else (Thrown, s))
      | _ \<Rightarrow> (Rejected 400 ''Activities array required'', s))"

section \<open>GET sync/status\<close>

record status_payload =
  sp_lastSync :: "sync_log_row option"
  sp_serverTime :: timestamp

text \<open>
  \<open>SELECT * FROM sync_logs WHERE user_id = ? AND device_id = ? ORDER BY last_sync_at
  DESC LIMIT 1\<close>, bound to \<open>req.user.id\<close> and \<open>req.deviceId || "unknown"\<close>. A row
  whose \<open>device_id\<close> is \<open>NULL\<close> never satisfies the equality.
\<close>

definition select_last_sync_log :: "nat \<Rightarrow> string \<Rightarrow> db \<Rightarrow> sync_log_row list" where
  "select_last_sync_log u d s =
     take 1 (rev (sort_key sl_last_sync_at
                    (filter (\<lambda>l. sl_user_id l = u \<and> sl_device_id l = Some d) (sync_logs s))))"

definition get_status :: "request \<Rightarrow> timestamp \<Rightarrow> db \<Rightarrow> status_payload" where
  "get_status req now s =
     (let logs = select_last_sync_log (user_id req) (deviceId_or_unknown req) s
      in \<lparr>sp_lastSync = (if length logs > 0 then Some (hd logs) else None),
          sp_serverTime = now\<rparr>)"

section \<open>The database after a call\<close>

datatype call =
    GetSyncFull "timestamp option"
  | GetSyncCheck "timestamp option"
  | GetSyncDownloads
  | PostSyncActivities activities_body
  | GetSyncStatus
  | PostActivitiesLog activities_body
  | PostModuleDownload string
  | PutModule string module_update
  | DeleteModule string
  | PutMecaAid string meca_aid_update
  | DeleteMecaAid string

text \<open>The three read-only handlers send no statement that writes.\<close>

fun db_after :: "(activity_row \<Rightarrow> bool) \<Rightarrow> request \<Rightarrow> timestamp \<Rightarrow> call \<Rightarrow> db \<Rightarrow> db" where
  "db_after accepts req now (GetSyncFull lastSync) s = snd (snd (compute_delta req lastSync now s))"
| "db_after accepts req now (GetSyncCheck lastSync) s = s"
| "db_after accepts req now GetSyncDownloads s = s"
| "db_after accepts req now (PostSyncActivities body) s = snd (sync_activities accepts req body now s)"
| "db_after accepts req now GetSyncStatus s = s"
| "db_after accepts req now (PostActivitiesLog body) s = snd (log_activities accepts req body now s)"
| "db_after accepts req now (PostModuleDownload uuid) s = snd (record_download accepts req uuid now s)"
| "db_after accepts req now (PutModule uuid b) s = snd (put_module req uuid b now s)"
| "db_after accepts req now (DeleteModule uuid) s = snd (delete_module req uuid now s)"
| "db_after accepts req now (PutMecaAid uuid b) s = snd (put_meca_aid req uuid b now s)"
| "db_after accepts req now (DeleteMecaAid uuid) s = snd (delete_meca_aid req uuid now s)"

section \<open>The sets the specification speaks of\<close>

text \<open>The items of a payload, without the joined category names and the steps.\<close>

definition delta_items :: "delta_payload \<Rightarrow> module_row set \<times> meca_aid_row set" where
  "delta_items p = (mo_row ` set (dp_modules p), mao_row ` set (dp_mecaAids p))"

text \<open>
  After the specification: the ContentItems with \<open>isActive = true\<close> and
  \<open>updatedAt > since\<close>, and the complete active catalog.
\<close>

definition active_since :: "db \<Rightarrow> timestamp \<Rightarrow> module_row set \<times> meca_aid_row set" where
  "active_since s t =
     ({m \<in> set (modules s). m_is_active m \<and> t < m_updated_at m},
      {a \<in> set (meca_aids s). ma_is_active a \<and> t < ma_updated_at a})"

definition active_catalog :: "db \<Rightarrow> module_row set \<times> meca_aid_row set" where
  "active_catalog s =
     ({m \<in> set (modules s). m_is_active m}, {a \<in> set (meca_aids s). ma_is_active a})"

text \<open>A timestamp earlier than the \<open>updatedAt\<close> of every active item.\<close>

definition precedes_active_items :: "timestamp \<Rightarrow> db \<Rightarrow> bool" where
  "precedes_active_items t s =
     (list_all (\<lambda>m. m_is_active m \<longrightarrow> t < m_updated_at m) (modules s) \<and>
      list_all (\<lambda>a. ma_is_active a \<longrightarrow> t < ma_updated_at a) (meca_aids s))"

section \<open>A small database\<close>

definition example_module :: module_row where
  "example_module =
     \<lparr>m_id = 1, m_uuid = ''m-1'', m_category_id = None, m_title = ''Brakes'',
      m_description = None, m_content = ''text'', m_thumbnail_url = None,
      m_is_downloadable = True, m_priority = 0, m_is_active = True, m_version = 3,
      m_updated_at = 1000\<rparr>"

definition example_meca_aid :: meca_aid_row where
  "example_meca_aid =
     \<lparr>ma_id = 7, ma_uuid = ''a-7'', ma_category_id = None, ma_title = ''No start'',
      ma_problem_description = ''Engine does not start'', ma_symptoms = None,
      ma_causes = None, ma_solutions = ''Check battery'', ma_tools_required = None,
      ma_difficulty_level = ''medium'', ma_estimated_time = None, ma_is_active = True,
      ma_version = 1, ma_updated_at = 1500\<rparr>"

definition example_steps :: "step_row list" where
  "example_steps =
     [\<lparr>st_meca_aid_id = 7, st_step_number = 2, st_instruction = ''Measure voltage''\<rparr>,
      \<lparr>st_meca_aid_id = 8, st_step_number = 1, st_instruction = ''Other aid''\<rparr>,
      \<lparr>st_meca_aid_id = 7, st_step_number = 1, st_instruction = ''Open hood''\<rparr>]"

definition example_db :: db where
  "example_db =
     \<lparr>modules = [example_module], meca_aids = [example_meca_aid],
      meca_aid_steps = example_steps, module_categories = [], meca_aid_categories = [],
      app_settings = [], downloaded_modules = [], user_activities = [], sync_logs = []\<rparr>"

text \<open>A caller that sends no \<open>X-Device-ID\<close> header.\<close>

definition example_request :: request where
  "example_request =
     \<lparr>user_id = 5, user_role = ''user'', x_device_id = None, ip = ''10.0.0.1''\<rparr>"

text \<open>An administrator, and a body for each of the two \<open>PUT\<close> routes.\<close>

definition example_admin :: request where
  "example_admin =
     \<lparr>user_id = 1, user_role = ''admin'', x_device_id = Some ''console'', ip = ''10.0.0.2''\<rparr>"

definition example_module_update :: module_update where
  "example_module_update =
     \<lparr>title = Val ''Brakes, revised'', description = Null, content = Null, categoryId = Null,
      thumbnailUrl = Null, isDownloadable = Null, priority = Null, isActive = Null\<rparr>"


text \<open>
  Four elements of an \<open>activities\<close> array: the second has no \<open>activityType\<close>, the
  third is \<open>null\<close>. The two tables below accept every row, or every row with an
  activity type.
\<close>

definition example_activity :: activity_json where
  "example_activity =
     \<lparr>aj_deviceId = Val ''dev-1'', aj_activityType = Val ''module_view'',
      aj_referenceId = Val 1, aj_referenceType = Val ''module'', aj_metadata = Null,
      aj_durationSeconds = Undefined, aj_timestamp = Val 1700, aj_createdAt = Undefined\<rparr>"

definition example_activities :: "activity_item list" where
  "example_activities =
     [JObject example_activity,
      JObject (example_activity\<lparr>aj_activityType := Undefined\<rparr>),
      JNull,
      JObject (example_activity\<lparr>aj_referenceId := Null\<rparr>)]"

definition rejects_null_type :: "activity_row \<Rightarrow> bool" where
  "rejects_null_type row = (ua_activity_type row \<noteq> None)"

definition accepts_all :: "activity_row \<Rightarrow> bool" where
  "accepts_all row = True"

text \<open>
  The ledger already holds a download of module 1 by user 5 without a device id, at
  version 9.
\<close>

definition example_db_downloaded :: db where
  "example_db_downloaded =
     example_db\<lparr>downloaded_modules :=
       [\<lparr>dm_user_id = 5, dm_module_id = 1, dm_device_id = ''unknown'',
         dm_downloaded_version = 9, dm_downloaded_at = 500\<rparr>]\<rparr>"

text \<open>
  A client of the same user that sends the header \<open>X-Device-ID: unknown\<close>, and the
  database after its full sync.
\<close>

definition example_request_unknown :: request where
  "example_request_unknown = example_request\<lparr>x_device_id := Some ''unknown''\<rparr>"

definition example_db_unknown_synced :: db where
  "example_db_unknown_synced =
     snd (snd (compute_delta example_request_unknown None 1000 example_db))"

section \<open>Proofs\<close>

lemmas example_defs =
  example_module_def example_meca_aid_def example_steps_def example_db_def
  example_request_def

lemma mao_row_attach_steps: "map mao_row (attach_steps steps mas) = map mao_row mas"
  by (simp add: attach_steps_def)

lemma set_mo_row_select_modules:
  "mo_row ` set (select_modules_since s t) = {m \<in> set (modules s). m_is_active m \<and> t < m_updated_at m}"
  by (auto simp: select_modules_since_def image_iff)

lemma map_mao_row_select_meca_aids:
  "map mao_row (select_meca_aids_since s t) = filter (\<lambda>a. ma_is_active a \<and> t < ma_updated_at a) (meca_aids s)"
  by (simp add: select_meca_aids_since_def comp_def)

lemma dp_modules_compute_delta:
  "dp_modules (fst (compute_delta req lastSync now s)) =
     select_modules_since s (case lastSync of Some t \<Rightarrow> t | None \<Rightarrow> 0)"
  by (simp add: compute_delta_def Let_def)

lemma map_mao_row_compute_delta:
  "map mao_row (dp_mecaAids (fst (compute_delta req lastSync now s))) =
     filter (\<lambda>a. ma_is_active a \<and> (case lastSync of Some t \<Rightarrow> t | None \<Rightarrow> 0) < ma_updated_at a) (meca_aids s)"
proof -
  have "map mao_row (if length xs > 0 then attach_steps st xs else xs) = map mao_row xs"
    for xs :: "meca_aid_out list" and st
    by (simp add: mao_row_attach_steps)
  then show ?thesis
    by (simp add: compute_delta_def Let_def map_mao_row_select_meca_aids del: length_greater_0_conv)
qed

lemma delta_items_compute_delta:
  "delta_items (fst (compute_delta req lastSync now s)) =
     active_since s (case lastSync of Some t \<Rightarrow> t | None \<Rightarrow> 0)"
proof -
  have "mao_row ` set (dp_mecaAids (fst (compute_delta req lastSync now s))) =
        set (map mao_row (dp_mecaAids (fst (compute_delta req lastSync now s))))"
    by simp
  then show ?thesis
    unfolding delta_items_def active_since_def map_mao_row_compute_delta
              dp_modules_compute_delta set_mo_row_select_modules
    by auto
qed

lemma active_since_catalog:
  "precedes_active_items t s \<Longrightarrow> active_since s t = active_catalog s"
  by (auto simp: precedes_active_items_def active_since_def active_catalog_def list_all_iff)

lemma length_attach_steps: "length (attach_steps st xs) = length xs"
  by (simp add: attach_steps_def)

lemma dp_mecaAids_compute_delta:
  "dp_mecaAids (fst (compute_delta req lastSync now s)) =
     attach_steps
       (select_steps_in s (map (\<lambda>m. ma_id (mao_row m))
          (select_meca_aids_since s (case lastSync of Some t \<Rightarrow> t | None \<Rightarrow> 0))))
       (select_meca_aids_since s (case lastSync of Some t \<Rightarrow> t | None \<Rightarrow> 0))"
proof -
  have "(if length xs > 0 then attach_steps st xs else xs) = attach_steps st xs"
    for xs :: "meca_aid_out list" and st
    by (simp add: attach_steps_def)
  then show ?thesis
    by (simp add: compute_delta_def Let_def del: length_greater_0_conv)
qed

lemma snd_compute_delta:
  "snd (snd (compute_delta req lastSync now s)) =
     s\<lparr>sync_logs := sync_logs s @
        [\<lparr>sl_user_id = user_id req, sl_device_id = deviceId req, sl_sync_type = ''full'',
          sl_items_synced = length (dp_modules (fst (compute_delta req lastSync now s))) +
                            length (dp_mecaAids (fst (compute_delta req lastSync now s))),
          sl_last_sync_at = now\<rparr>]\<rparr>"
  by (simp add: compute_delta_def Let_def)

lemma select_modules_since_sync_logs [simp]:
  "select_modules_since (s\<lparr>sync_logs := l\<rparr>) t = select_modules_since s t"
  by (simp add: select_modules_since_def)

lemma select_meca_aids_since_sync_logs [simp]:
  "select_meca_aids_since (s\<lparr>sync_logs := l\<rparr>) t = select_meca_aids_since s t"
  by (simp add: select_meca_aids_since_def)

lemma select_steps_in_sync_logs [simp]:
  "select_steps_in (s\<lparr>sync_logs := l\<rparr>) ids = select_steps_in s ids"
  by (simp add: select_steps_in_def)






subsection \<open>C1: what the full sync returns\<close>

text \<open>
  C1. \<open>GET sync/full\<close> with \<open>lastSync = T\<close> returns exactly the modules and meca aids
  with \<open>is_active\<close> and \<open>updated_at > T\<close>. Without \<open>lastSync\<close> the handler
  compares with \<open>new Date(0)\<close>: when the Unix epoch is earlier than the \<open>updated_at\<close> of
  every active item, it returns the complete active catalog, the same items as a call with
  any timestamp \<open>T0\<close> earlier than every active item's \<open>updated_at\<close>.
\<close>

theorem compute_delta_exact:
  "delta_items (fst (compute_delta req (Some T) now s)) = active_since s T \<and>
   (precedes_active_items 0 s \<longrightarrow>
      delta_items (fst (compute_delta req None now s)) = active_catalog s \<and>
      (precedes_active_items T0 s \<longrightarrow>
         delta_items (fst (compute_delta req None now s)) =
         delta_items (fst (compute_delta req (Some T0) now s))))"
  by (simp add: delta_items_compute_delta active_since_catalog)

theorem compute_delta_exact_witness:
  "precedes_active_items 0 example_db \<and> precedes_active_items 999 example_db \<and>
   delta_items (fst (compute_delta example_request (Some 1200) 2000 example_db)) =
     ({}, {example_meca_aid}) \<and>
   delta_items (fst (compute_delta example_request None 2000 example_db)) =
     ({example_module}, {example_meca_aid}) \<and>
   delta_items (fst (compute_delta example_request None 2000 example_db)) =
     delta_items (fst (compute_delta example_request (Some 999) 2000 example_db))"
proof -
  have 0: "precedes_active_items 0 example_db" and 1: "precedes_active_items 999 example_db"
    by (simp_all add: precedes_active_items_def example_defs)
  have a: "active_since example_db 1200 = ({}, {example_meca_aid})"
    by (auto simp add: active_since_def example_defs)
  have c: "active_catalog example_db = ({example_module}, {example_meca_aid})"
    by (auto simp add: active_catalog_def example_defs)
  show ?thesis
    using compute_delta_exact [of example_request 1200 2000 example_db 999] 0 1 a c
    by metis
qed

subsection \<open>C7: the lightweight check\<close>

text \<open>
  C7. \<open>GET sync/check\<close> without \<open>lastSync\<close> reports \<open>hasUpdates = true\<close> whatever
  the catalog holds; with \<open>lastSync = T\<close> it reports \<open>hasUpdates = true\<close> exactly when
  the full sync with the same \<open>T\<close> would return a module or a meca aid, and its two
  counts are the lengths of the two item lists of that full sync.
\<close>

theorem check_for_updates_same_predicate:
  "cp_hasUpdates (check_for_updates None now s) \<and>
   cp_hasUpdates (check_for_updates (Some T) now s) =
     (fst (delta_items (fst (compute_delta req (Some T) now' s))) \<noteq> {} \<or>
      snd (delta_items (fst (compute_delta req (Some T) now' s))) \<noteq> {}) \<and>
   cp_updates (check_for_updates (Some T) now s) =
     Some (length (dp_modules (fst (compute_delta req (Some T) now' s))),
           length (dp_mecaAids (fst (compute_delta req (Some T) now' s))))"
proof -
  have 1: "cp_hasUpdates (check_for_updates None now s)"
    by (simp add: check_for_updates_def)
  have 2: "cp_hasUpdates (check_for_updates (Some T) now s) =
     (fst (active_since s T) \<noteq> {} \<or> snd (active_since s T) \<noteq> {})"
    by (simp add: check_for_updates_def Let_def active_since_def filter_empty_conv) blast
  have 3: "cp_updates (check_for_updates (Some T) now s) =
     Some (length (dp_modules (fst (compute_delta req (Some T) now' s))),
           length (dp_mecaAids (fst (compute_delta req (Some T) now' s))))"
    by (simp add: check_for_updates_def Let_def dp_modules_compute_delta dp_mecaAids_compute_delta
          length_attach_steps select_modules_since_def select_meca_aids_since_def)
  show ?thesis
    using 1 2 3 by (simp add: delta_items_compute_delta)
qed

theorem check_for_updates_same_predicate_witness:
  "cp_hasUpdates (check_for_updates None 2000 example_db) \<and>
   cp_hasUpdates (check_for_updates (Some 1200) 2000 example_db) \<and>
   \<not> cp_hasUpdates (check_for_updates (Some 1500) 2000 example_db) \<and>
   cp_updates (check_for_updates (Some 1200) 2000 example_db) = Some (0, 1)"
proof -
  have "\<not> cp_hasUpdates (check_for_updates (Some 1500) 2000 example_db)"
    by (simp add: check_for_updates_def example_defs)
  moreover have "cp_updates (check_for_updates (Some 1200) 2000 example_db) = Some (0, 1)"
    by (simp add: check_for_updates_def example_defs)
  moreover have "snd (active_since example_db 1200) \<noteq> {}"
    by (auto simp add: active_since_def example_defs)
  ultimately show ?thesis
    using check_for_updates_same_predicate [of 2000 example_db 1200 example_request 2000]
    by (simp add: delta_items_compute_delta)
qed

subsection \<open>C8: the full sync is an idempotent read\<close>

text \<open>
  C8. Two calls of \<open>GET sync/full\<close> with the same \<open>lastSync\<close>, the second on the
  database the first leaves, return the same modules and the same meca aids; the
  database after a call is the one before with one row appended to \<open>sync_logs\<close>, so
  the content tables, the download ledger and the activity log are unchanged.
\<close>

theorem compute_delta_idempotent_read:
  "(let first = compute_delta req lastSync now s;
        s1 = snd (snd first);
        second = compute_delta req lastSync now' s1
    in dp_modules (fst second) = dp_modules (fst first) \<and>
       dp_mecaAids (fst second) = dp_mecaAids (fst first) \<and>
       s1 = s\<lparr>sync_logs := sync_logs s @
              [\<lparr>sl_user_id = user_id req, sl_device_id = deviceId req, sl_sync_type = ''full'',
                sl_items_synced = length (dp_modules (fst first)) + length (dp_mecaAids (fst first)),
                sl_last_sync_at = now\<rparr>]\<rparr> \<and>
       modules s1 = modules s \<and> meca_aids s1 = meca_aids s \<and>
       meca_aid_steps s1 = meca_aid_steps s \<and>
       downloaded_modules s1 = downloaded_modules s \<and>
       user_activities s1 = user_activities s)"
proof -
  have "snd (snd (compute_delta req lastSync now s)) = s\<lparr>sync_logs := sync_logs s @
              [\<lparr>sl_user_id = user_id req, sl_device_id = deviceId req, sl_sync_type = ''full'',
                sl_items_synced = length (dp_modules (fst (compute_delta req lastSync now s))) +
                                  length (dp_mecaAids (fst (compute_delta req lastSync now s))),
                sl_last_sync_at = now\<rparr>]\<rparr>" (is "?s1 = s\<lparr>sync_logs := ?l\<rparr>")
    by (rule snd_compute_delta)
  moreover have "dp_modules (fst (compute_delta req lastSync now' (s\<lparr>sync_logs := ?l\<rparr>))) =
                 dp_modules (fst (compute_delta req lastSync now s))"
    by (simp only: dp_modules_compute_delta select_modules_since_sync_logs)
  moreover have "dp_mecaAids (fst (compute_delta req lastSync now' (s\<lparr>sync_logs := ?l\<rparr>))) =
                 dp_mecaAids (fst (compute_delta req lastSync now s))"
    by (simp only: dp_mecaAids_compute_delta select_meca_aids_since_sync_logs
          select_steps_in_sync_logs)
  ultimately show ?thesis
    by (simp add: Let_def)
qed

theorem compute_delta_idempotent_read_witness:
  "dp_modules (fst (compute_delta example_request None 3000
       (snd (snd (compute_delta example_request None 2000 example_db))))) =
   dp_modules (fst (compute_delta example_request None 2000 example_db)) \<and>
   dp_mecaAids (fst (compute_delta example_request None 3000
       (snd (snd (compute_delta example_request None 2000 example_db))))) =
   dp_mecaAids (fst (compute_delta example_request None 2000 example_db)) \<and>
   downloaded_modules (snd (snd (compute_delta example_request None 2000 example_db))) = []"
proof -
  have "downloaded_modules example_db = []"
    by (simp add: example_db_def)
  then show ?thesis
    using compute_delta_idempotent_read [of example_request None 2000 example_db 3000, unfolded Let_def]
    by metis
qed

subsection \<open>C10: one bulk fetch of the steps\<close>



subsection \<open>C2: a bad event is skipped\<close>

lemma sync_loop_eq:
  "sync_loop accepts req now evs synced s =
     (synced + length (filter (\<lambda>e. sync_activity accepts req now e \<noteq> None) evs),
      s\<lparr>user_activities := user_activities s @ List.map_filter (sync_activity accepts req now) evs\<rparr>)"
proof (induction evs arbitrary: synced s)
  case Nil
  show ?case by simp
next
  case (Cons e evs)
  show ?case
    by (cases "sync_activity accepts req now e") (simp_all add: Cons.IH)
qed

lemma length_map_filter: "length (List.map_filter f xs) = length (filter (\<lambda>x. f x \<noteq> None) xs)"
  by (induction xs) (auto split: option.splits)

lemma length_filter_complement:
  "length (filter P xs) = length xs - length (filter (\<lambda>x. \<not> P x) xs)"
  using sum_length_filter_compl [of P xs] by simp

text \<open>
  C2. For a batch of N elements of which K make the insert of the loop throw (a \<open>null\<close>
  element, an \<open>undefined\<close> bind parameter such as a missing \<open>activityType\<close>, a row
  the table refuses), \<open>POST sync/activities\<close> answers with success and the counts N - K
  of N, and the database after the call is the one before with the rows of the other N - K
  elements appended to \<open>user_activities\<close>, in the order of the array: a bad element
  stops nothing. An element without \<open>activityType\<close> is always one of the K.
\<close>

theorem sync_activities_partial_success:
  "(let N = length evs;
        K = length (filter (\<lambda>e. sync_activity accepts req now e = None) evs);
        result = sync_activities accepts req (Activities evs) now s
    in fst result = Success (N - K, N) \<and>
       snd result =
         s\<lparr>user_activities :=
             user_activities s @ List.map_filter (sync_activity accepts req now) evs\<rparr> \<and>
       length (user_activities (snd result)) = length (user_activities s) + (N - K)) \<and>
   (is_undefined (aj_activityType a) \<longrightarrow> sync_activity accepts req now (JObject a) = None)"
proof -
  have "length (filter (\<lambda>e. sync_activity accepts req now e \<noteq> None) evs) =
        length evs - length (filter (\<lambda>e. sync_activity accepts req now e = None) evs)"
    using length_filter_complement [of "\<lambda>e. sync_activity accepts req now e \<noteq> None" evs] by simp
  moreover have "is_undefined (aj_activityType a) \<longrightarrow> sync_activity accepts req now (JObject a) = None"
    by (simp add: sync_activity_def)
  ultimately show ?thesis
    by (simp add: sync_activities_def sync_loop_eq Let_def length_map_filter)
qed

theorem sync_activities_partial_success_witness:
  "fst (sync_activities rejects_null_type example_request (Activities example_activities) 2000 example_db)
     = Success (2, 4) \<and>
   map ua_created_at (user_activities
     (snd (sync_activities rejects_null_type example_request (Activities example_activities) 2000 example_db)))
     = [1700, 1700] \<and>
   sync_activity rejects_null_type example_request 2000
     (JObject (example_activity\<lparr>aj_activityType := Undefined\<rparr>)) = None"
proof -
  have u: "is_undefined (aj_activityType (example_activity\<lparr>aj_activityType := Undefined\<rparr>))"
    by (simp add: is_undefined_def)
  have k: "filter (\<lambda>e. sync_activity rejects_null_type example_request 2000 e = None) example_activities
           = [JObject (example_activity\<lparr>aj_activityType := Undefined\<rparr>), JNull]"
    by (simp add: example_activities_def example_activity_def sync_activity_def is_undefined_def
          activity_device_def deviceId_def example_request_def rejects_null_type_def or_null_def Let_def)
  have r: "map ua_created_at (List.map_filter (sync_activity rejects_null_type example_request 2000) example_activities)
           = [1700, 1700]"
    by (simp add: example_activities_def example_activity_def sync_activity_def is_undefined_def
          activity_device_def deviceId_def example_request_def rejects_null_type_def or_null_def Let_def
          date_or_now_def)
  have e: "user_activities example_db = []" "length example_activities = 4"
    by (simp_all add: example_db_def example_activities_def)
  show ?thesis
    using sync_activities_partial_success [of example_activities rejects_null_type example_request 2000 example_db
        "example_activity\<lparr>aj_activityType := Undefined\<rparr>"] u
    by (simp add: Let_def k r e)
qed

subsection \<open>C3: the empty batch\<close>

text \<open>
  C3. The claim is that \<open>POST sync/activities\<close> with an empty array is rejected as a
  validation error. The handler does not do so: its guard has no test of the length, the
  loop runs no iteration, and the answer is the success "0 of 0 activities synced" with
  the database unchanged. The batch handler beside it, \<open>POST activities/log\<close>, rejects
  the same body with status 400.
\<close>

theorem sync_activities_accepts_empty_array:
  "sync_activities accepts req (Activities []) now s = (Success (0, 0), s) \<and>
   log_activities accepts req (Activities []) now s = (Rejected 400 ''Activities array required'', s)"
  by (simp add: sync_activities_def log_activities_def)

subsection \<open>The download ledger\<close>

lemma download_key_overwrite:
  "download_key (r\<lparr>dm_downloaded_version := v, dm_downloaded_at := now\<rparr>) = download_key r"
  by (simp add: download_key_def)

lemma upsert_download_same_keys:
  "(u, m, d) \<in> set (map download_key rows) \<Longrightarrow>
   map download_key (upsert_download u m d v now rows) = map download_key rows"
proof -
  have "map download_key
          (map (\<lambda>r. if download_key r = k
                     then r\<lparr>dm_downloaded_version := v, dm_downloaded_at := now\<rparr> else r) xs) =
        map download_key xs" for k xs
    by (induction xs) (simp_all add: download_key_overwrite)
  then show "(u, m, d) \<in> set (map download_key rows) \<Longrightarrow> ?thesis"
    by (simp only: upsert_download_def if_True)
qed

lemma upsert_download_overwrites:
  "r \<in> set (upsert_download u m d v now rows) \<Longrightarrow> download_key r = (u, m, d) \<Longrightarrow>
   dm_downloaded_version r = v \<and> dm_downloaded_at r = now"
proof (cases "(u, m, d) \<in> set (map download_key rows)")
  case True
  assume "r \<in> set (upsert_download u m d v now rows)" and k: "download_key r = (u, m, d)"
  with True obtain r0 where "r0 \<in> set rows"
    and r: "r = (if download_key r0 = (u, m, d)
                 then r0\<lparr>dm_downloaded_version := v, dm_downloaded_at := now\<rparr> else r0)"
    by (auto simp only: upsert_download_def if_True set_map)
  from r k show ?thesis
    by (cases "download_key r0 = (u, m, d)") simp_all
next
  case False
  assume "r \<in> set (upsert_download u m d v now rows)" and k: "download_key r = (u, m, d)"
  with False show ?thesis
    by (auto simp: upsert_download_def image_iff)
qed

lemma upsert_download_others:
  "r \<in> set rows \<Longrightarrow> download_key r \<noteq> (u, m, d) \<Longrightarrow> r \<in> set (upsert_download u m d v now rows)"
  by (auto simp: upsert_download_def image_iff)

lemma upsert_download_keys:
  "set (map download_key (upsert_download u m d v now rows)) =
   insert (u, m, d) (set (map download_key rows))"
proof (cases "(u, m, d) \<in> set (map download_key rows)")
  case True
  then show ?thesis
    by (simp only: upsert_download_same_keys) auto
next
  case False
  then show ?thesis
    by (simp add: upsert_download_def download_key_def)
qed

lemma upsert_download_key_present:
  "(u, m, d) \<in> set (map download_key (upsert_download u m d v now rows))"
  by (simp only: upsert_download_keys insertI1)

lemma upsert_download_distinct:
  "distinct (map download_key rows) \<Longrightarrow> distinct (map download_key (upsert_download u m d v now rows))"
proof (cases "(u, m, d) \<in> set (map download_key rows)")
  case True
  then show "distinct (map download_key rows) \<Longrightarrow> ?thesis"
    by (simp only: upsert_download_same_keys)
next
  case False
  then show "distinct (map download_key rows) \<Longrightarrow> ?thesis"
    by (simp add: upsert_download_def download_key_def)
qed

lemma downloaded_modules_record_download:
  "downloaded_modules (snd (record_download accepts req uuid now s)) =
     (case filter (\<lambda>m. m_uuid m = uuid \<and> m_is_active m \<and> m_is_downloadable m) (modules s) of
        [] \<Rightarrow> downloaded_modules s
      | module # _ \<Rightarrow> upsert_download (user_id req) (m_id module) (deviceId_or_unknown req)
                        (m_version module) now (downloaded_modules s))"
  by (simp add: record_download_def Let_def split: list.splits)

lemma modules_record_download:
  "modules (snd (record_download accepts req uuid now s)) = modules s"
  by (simp add: record_download_def Let_def split: list.splits)

lemma download_keys_db_after:
  "set (map download_key (downloaded_modules s)) \<subseteq>
   set (map download_key (downloaded_modules (db_after accepts req now c s)))"
proof (cases c)
  case (GetSyncFull lastSync)
  then show ?thesis by (simp add: snd_compute_delta)
next
  case (PostSyncActivities body)
  then show ?thesis by (cases body) (simp_all add: sync_activities_def sync_loop_eq)
next
  case (PostActivitiesLog body)
  then show ?thesis by (cases body) (simp_all add: log_activities_def Let_def)
next
  case (PostModuleDownload uuid)
  then show ?thesis
    by (simp only: db_after.simps downloaded_modules_record_download upsert_download_keys
          split: list.splits) auto
next
  case (PutModule uuid b)
  then show ?thesis by (simp add: put_module_def)
next
  case (DeleteModule uuid)
  then show ?thesis by (simp add: delete_module_def)
next
  case (PutMecaAid uuid b)
  then show ?thesis by (simp add: put_meca_aid_def)
next
  case (DeleteMecaAid uuid)
  then show ?thesis by (simp add: delete_meca_aid_def)
qed simp_all

lemma needs_update_of_row:
  "r \<in> set (get_download_status req s) \<Longrightarrow>
   ds_needs_update r = (dm_downloaded_version (ds_row r) < ds_current_version r) \<and>
   (\<exists>m\<in>set (modules s). m_id m = dm_module_id (ds_row r) \<and> ds_current_version r = m_version m)"
  by (auto simp: get_download_status_def)

lemma get_download_status_iff:
  "r \<in> set (get_download_status req s) \<longleftrightarrow>
   (\<exists>dm\<in>set (downloaded_modules s). \<exists>m\<in>set (modules s).
      dm_user_id dm = user_id req \<and> dm_device_id dm = deviceId_or_unknown req \<and>
      dm_module_id dm = m_id m \<and>
      r = \<lparr>ds_row = dm, ds_uuid = m_uuid m, ds_title = m_title m,
            ds_current_version = m_version m,
            ds_needs_update = (dm_downloaded_version dm < m_version m)\<rparr>)"
  by (auto simp: get_download_status_def)

lemma filter_unique_uuid:
  "distinct (map m_uuid ms) \<Longrightarrow> M \<in> set ms \<Longrightarrow>
   filter (\<lambda>m. m_uuid m = m_uuid M \<and> P m) ms = (if P M then [M] else [])"
proof (induction ms)
  case Nil
  then show ?case by simp
next
  case (Cons a ms)
  show ?case
  proof (cases "a = M")
    case True
    with Cons.prems(1) have "m_uuid M \<notin> m_uuid ` set ms" by simp
    then have "\<forall>m\<in>set ms. m_uuid m \<noteq> m_uuid M" by (metis imageI)
    then have "filter (\<lambda>m. m_uuid m = m_uuid M \<and> P m) ms = []"
      by (simp add: filter_empty_conv)
    with True show ?thesis by simp
  next
    case False
    with Cons.prems have "M \<in> set ms" "distinct (map m_uuid ms)" "m_uuid a \<notin> m_uuid ` set ms"
      by simp_all
    then have "M \<in> set ms" "m_uuid a \<noteq> m_uuid M" "distinct (map m_uuid ms)"
      by (simp_all, metis imageI)
    with Cons.IH show ?thesis by simp
  qed
qed

lemma m_id_update_module_row: "m_id (update_module_row b now m) = m_id m"
  and m_version_update_module_row: "m_version (update_module_row b now m) = m_version m + 1"
  and m_updated_at_update_module_row: "m_updated_at (update_module_row b now m) = now"
  and m_uuid_update_module_row: "m_uuid (update_module_row b now m) = m_uuid m"
  by (simp_all add: update_module_row_def)

lemma put_module_success:
  "user_role req = ''admin'' \<Longrightarrow> module_update_bindable b \<Longrightarrow>
   put_module req uuid b now s =
     (Success ''Module updated'',
      s\<lparr>modules := map (\<lambda>m. if m_uuid m = uuid then update_module_row b now m else m) (modules s)\<rparr>)"
  by (simp add: put_module_def)

lemma module_of_id_after_put:
  assumes "distinct (map m_id ms)" and "M \<in> set ms"
    and "m' \<in> set (map (\<lambda>m. if m_uuid m = m_uuid M then update_module_row b now m else m) ms)"
    and "m_id m' = m_id M"
  shows "m' = update_module_row b now M"
proof -
  from assms(3) obtain m where m: "m \<in> set ms"
    and m': "m' = (if m_uuid m = m_uuid M then update_module_row b now m else m)"
    by auto
  from m' have "m_id m' = m_id m"
    by (simp add: m_id_update_module_row split: if_splits)
  with assms(4) have "m_id m = m_id M" by simp
  with assms(1,2) m have "m = M"
    by (meson distinct_map inj_onD)
  with m' show ?thesis by simp
qed

subsection \<open>C4: needsUpdate is computed at read time\<close>

text \<open>
  C4. Every row \<open>GET sync/downloads\<close> returns has \<open>needs_update\<close> true exactly when
  its \<open>downloaded_version\<close> is less than its \<open>current_version\<close>, which is the
  version a module with the row's \<open>module_id\<close> has in the database that is read. In
  particular (ids and uuids of modules being unique): after a caller downloads an active,
  downloadable module M at version v and an administrator then updates M, the caller's
  status has a row for M, and every such row reports downloaded version v, current
  version v + 1 and \<open>needs_update = true\<close>; with v = 3 this is 3, 4, true.
\<close>

theorem needs_update_at_read:
  "(\<forall>r\<in>set (get_download_status req s).
      ds_needs_update r = (dm_downloaded_version (ds_row r) < ds_current_version r) \<and>
      (\<exists>m\<in>set (modules s). m_id m = dm_module_id (ds_row r) \<and> ds_current_version r = m_version m)) \<and>
   (M \<in> set (modules s) \<and> distinct (map m_id (modules s)) \<and> distinct (map m_uuid (modules s)) \<and>
    m_is_active M \<and> m_is_downloadable M \<and> user_role admin = ''admin'' \<and> module_update_bindable b \<longrightarrow>
    (let s1 = snd (record_download accepts req (m_uuid M) now1 s);
         s2 = snd (put_module admin (m_uuid M) b now2 s1);
         status = get_download_status req s2
     in (\<exists>r\<in>set status. dm_module_id (ds_row r) = m_id M) \<and>
        (\<forall>r\<in>set status. dm_module_id (ds_row r) = m_id M \<longrightarrow>
           dm_downloaded_version (ds_row r) = m_version M \<and>
           ds_current_version r = m_version M + 1 \<and>
           ds_needs_update r)))"
proof (intro conjI impI ballI)
  fix r assume "r \<in> set (get_download_status req s)"
  from needs_update_of_row [OF this]
  show "ds_needs_update r = (dm_downloaded_version (ds_row r) < ds_current_version r)"
    and "\<exists>m\<in>set (modules s). m_id m = dm_module_id (ds_row r) \<and> ds_current_version r = m_version m"
    by simp_all
next
  assume a: "M \<in> set (modules s) \<and> distinct (map m_id (modules s)) \<and> distinct (map m_uuid (modules s)) \<and>
    m_is_active M \<and> m_is_downloadable M \<and> user_role admin = ''admin'' \<and> module_update_bindable b"
  define s1 where "s1 = snd (record_download accepts req (m_uuid M) now1 s)"
  define s2 where "s2 = snd (put_module admin (m_uuid M) b now2 s1)"
  define U where "U = upsert_download (user_id req) (m_id M) (deviceId_or_unknown req) (m_version M) now1
        (downloaded_modules s)"
  define ms' where "ms' = map (\<lambda>m. if m_uuid m = m_uuid M then update_module_row b now2 m else m) (modules s)"
  from a have found: "filter (\<lambda>m. m_uuid m = m_uuid M \<and> m_is_active m \<and> m_is_downloadable m) (modules s) = [M]"
    by (simp add: filter_unique_uuid)
  have d1: "downloaded_modules s1 = U" and m1: "modules s1 = modules s"
    unfolding s1_def U_def by (simp_all add: downloaded_modules_record_download modules_record_download found)
  from a have s2: "s2 = s1\<lparr>modules := ms'\<rparr>"
    unfolding s2_def ms'_def by (simp add: put_module_success m1)
  have d2: "downloaded_modules s2 = U" and m2: "modules s2 = ms'"
    by (simp_all add: s2 d1)
  have M': "update_module_row b now2 M \<in> set ms'"
    using a unfolding ms'_def by force
  have ex: "\<exists>r\<in>set (get_download_status req s2). dm_module_id (ds_row r) = m_id M"
  proof -
    obtain dm where dm: "dm \<in> set U" "download_key dm = (user_id req, m_id M, deviceId_or_unknown req)"
      using upsert_download_key_present [of "user_id req" "m_id M" "deviceId_or_unknown req" "m_version M" now1 "downloaded_modules s"]
      unfolding U_def by auto
    let ?r = "\<lparr>ds_row = dm, ds_uuid = m_uuid (update_module_row b now2 M),
               ds_title = m_title (update_module_row b now2 M),
               ds_current_version = m_version (update_module_row b now2 M),
               ds_needs_update = (dm_downloaded_version dm < m_version (update_module_row b now2 M))\<rparr>"
    from dm M' have "?r \<in> set (get_download_status req s2)"
      unfolding get_download_status_iff d2 m2
      by (auto simp: download_key_def m_id_update_module_row intro!: bexI [of _ dm] bexI [of _ "update_module_row b now2 M"])
    then show ?thesis
      using dm(2) by (intro bexI [of _ ?r]) (simp_all add: download_key_def)
  qed
  have all: "dm_downloaded_version (ds_row r) = m_version M \<and>
           ds_current_version r = m_version M + 1 \<and> ds_needs_update r"
    if r: "r \<in> set (get_download_status req s2)" and i: "dm_module_id (ds_row r) = m_id M" for r
  proof -
    from r obtain dm m' where dm: "dm \<in> set U" and m': "m' \<in> set ms'"
      and u: "dm_user_id dm = user_id req" "dm_device_id dm = deviceId_or_unknown req"
      and j: "dm_module_id dm = m_id m'"
      and req: "r = \<lparr>ds_row = dm, ds_uuid = m_uuid m', ds_title = m_title m',
            ds_current_version = m_version m',
            ds_needs_update = (dm_downloaded_version dm < m_version m')\<rparr>"
      unfolding get_download_status_iff d2 m2 by blast
    from i req have k: "dm_module_id dm = m_id M" by simp
    with u have "download_key dm = (user_id req, m_id M, deviceId_or_unknown req)"
      by (simp add: download_key_def)
    with dm have v: "dm_downloaded_version dm = m_version M"
      unfolding U_def using upsert_download_overwrites by blast
    from a m' j k have "m' = update_module_row b now2 M"
      unfolding ms'_def by (intro module_of_id_after_put [of "modules s"]) simp_all
    then have "m_version m' = m_version M + 1"
      by (simp add: m_version_update_module_row)
    with v req show ?thesis by simp
  qed
  show "let s1 = snd (record_download accepts req (m_uuid M) now1 s);
         s2 = snd (put_module admin (m_uuid M) b now2 s1);
         status = get_download_status req s2
     in (\<exists>r\<in>set status. dm_module_id (ds_row r) = m_id M) \<and>
        (\<forall>r\<in>set status. dm_module_id (ds_row r) = m_id M \<longrightarrow>
           dm_downloaded_version (ds_row r) = m_version M \<and>
           ds_current_version r = m_version M + 1 \<and>
           ds_needs_update r)"
    unfolding Let_def s1_def [symmetric] s2_def [symmetric]
    using ex all by blast
qed

theorem needs_update_at_read_witness:
  "example_module \<in> set (modules example_db) \<and> distinct (map m_id (modules example_db)) \<and>
   distinct (map m_uuid (modules example_db)) \<and> m_is_active example_module \<and>
   m_is_downloadable example_module \<and> user_role example_admin = ''admin'' \<and>
   module_update_bindable example_module_update \<and>
   m_uuid example_module = ''m-1'' \<and> m_version example_module = 3 \<and>
   map (\<lambda>r. (dm_module_id (ds_row r), dm_downloaded_version (ds_row r), ds_current_version r,
              ds_needs_update r))
     (get_download_status example_request
        (snd (put_module example_admin ''m-1'' example_module_update 2000
           (snd (record_download accepts_all example_request ''m-1'' 1500 example_db))))) =
     [(1, 3, 4, True)]"
proof -
  have h: "example_module \<in> set (modules example_db) \<and> distinct (map m_id (modules example_db)) \<and>
   distinct (map m_uuid (modules example_db)) \<and> m_is_active example_module \<and>
   m_is_downloadable example_module \<and> user_role example_admin = ''admin'' \<and>
   module_update_bindable example_module_update"
    by (simp add: example_defs example_admin_def example_module_update_def
          module_update_bindable_def is_undefined_def)
  have v: "m_uuid example_module = ''m-1''" "m_version example_module = 3"
    by (simp_all add: example_module_def)
  have e: "map (\<lambda>r. (dm_module_id (ds_row r), dm_downloaded_version (ds_row r), ds_current_version r,
              ds_needs_update r))
     (get_download_status example_request
        (snd (put_module example_admin ''m-1'' example_module_update 2000
           (snd (record_download accepts_all example_request ''m-1'' 1500 example_db))))) =
     [(1, 3, 4, True)]"
    by (simp add: get_download_status_def put_module_def record_download_def upsert_download_def
          accepts_all_def example_defs example_admin_def example_module_update_def
          module_update_bindable_def is_undefined_def update_module_row_def coalesce_def
          coalesce_opt_def deviceId_or_unknown_def deviceId_def Let_def)
  show ?thesis
    using needs_update_at_read [of example_request example_db example_module example_admin
        example_module_update accepts_all 1500 2000] h v e
    by simp
qed

subsection \<open>C5: a download is an upsert\<close>

text \<open>
  C5. When \<open>POST modules/:uuid/download\<close> finds the module, the ledger afterwards has a
  row with the key (user id, module id, device id or "unknown"); every row with that key
  carries the module's current version and the time of the call, whatever was stored
  before; when the key was new the ledger is the old one with that one row appended, when
  it was present the keys are the same as before (no second row); rows with other keys are
  untouched and unique keys stay unique. No call of the routes modelled here removes a key
  from the ledger.
\<close>

theorem record_download_upserts:
  assumes "filter (\<lambda>m. m_uuid m = uuid \<and> m_is_active m \<and> m_is_downloadable m) (modules s) = M # rest"
  shows "(let rows = downloaded_modules s;
              rows' = downloaded_modules (snd (record_download accepts req uuid now s));
              k = (user_id req, m_id M, deviceId_or_unknown req)
          in k \<in> set (map download_key rows') \<and>
             (\<forall>r\<in>set rows'. download_key r = k \<longrightarrow>
                dm_downloaded_version r = m_version M \<and> dm_downloaded_at r = now) \<and>
             (k \<notin> set (map download_key rows) \<longrightarrow>
                rows' = rows @ [\<lparr>dm_user_id = user_id req, dm_module_id = m_id M,
                                 dm_device_id = deviceId_or_unknown req,
                                 dm_downloaded_version = m_version M,
                                 dm_downloaded_at = now\<rparr>]) \<and>
             (k \<in> set (map download_key rows) \<longrightarrow>
                map download_key rows' = map download_key rows) \<and>
             (\<forall>r\<in>set rows. download_key r \<noteq> k \<longrightarrow> r \<in> set rows') \<and>
             (distinct (map download_key rows) \<longrightarrow> distinct (map download_key rows'))) \<and>
         set (map download_key (downloaded_modules s')) \<subseteq>
           set (map download_key (downloaded_modules (db_after accepts' req' now' c s')))"
proof -
  have rows': "downloaded_modules (snd (record_download accepts req uuid now s)) =
      upsert_download (user_id req) (m_id M) (deviceId_or_unknown req) (m_version M) now
        (downloaded_modules s)"
    by (simp add: downloaded_modules_record_download assms)
  let ?k = "(user_id req, m_id M, deviceId_or_unknown req)"
  let ?U = "upsert_download (user_id req) (m_id M) (deviceId_or_unknown req) (m_version M) now
        (downloaded_modules s)"
  have 1: "?k \<in> set (map download_key ?U)"
    by (rule upsert_download_key_present)
  have 2: "\<forall>r\<in>set ?U. download_key r = ?k \<longrightarrow>
             dm_downloaded_version r = m_version M \<and> dm_downloaded_at r = now"
    using upsert_download_overwrites by blast
  have 3: "?k \<notin> set (map download_key (downloaded_modules s)) \<longrightarrow>
      ?U = downloaded_modules s @ [\<lparr>dm_user_id = user_id req, dm_module_id = m_id M,
                                 dm_device_id = deviceId_or_unknown req,
                                 dm_downloaded_version = m_version M,
                                 dm_downloaded_at = now\<rparr>]"
    by (simp add: upsert_download_def)
  have 4: "?k \<in> set (map download_key (downloaded_modules s)) \<longrightarrow>
             map download_key ?U = map download_key (downloaded_modules s)"
    using upsert_download_same_keys by blast
  have 5: "\<forall>r\<in>set (downloaded_modules s). download_key r \<noteq> ?k \<longrightarrow> r \<in> set ?U"
    using upsert_download_others by blast
  have 6: "distinct (map download_key (downloaded_modules s)) \<longrightarrow> distinct (map download_key ?U)"
    using upsert_download_distinct by blast
  show ?thesis
    unfolding Let_def rows' by (intro conjI 1 2 3 4 5 6 download_keys_db_after)
qed

theorem record_download_upserts_witness:
  "filter (\<lambda>m. m_uuid m = ''m-1'' \<and> m_is_active m \<and> m_is_downloadable m)
     (modules example_db_downloaded) = example_module # [] \<and>
   map dm_downloaded_version (downloaded_modules example_db_downloaded) = [9] \<and>
   downloaded_modules (snd (record_download accepts_all example_request ''m-1'' 2000 example_db_downloaded)) =
     [\<lparr>dm_user_id = 5, dm_module_id = 1, dm_device_id = ''unknown'',
       dm_downloaded_version = 3, dm_downloaded_at = 2000\<rparr>]"
proof -
  have h: "filter (\<lambda>m. m_uuid m = ''m-1'' \<and> m_is_active m \<and> m_is_downloadable m)
     (modules example_db_downloaded) = example_module # []"
    by (simp add: example_db_downloaded_def example_defs)
  have e: "downloaded_modules (snd (record_download accepts_all example_request ''m-1'' 2000 example_db_downloaded)) =
     [\<lparr>dm_user_id = 5, dm_module_id = 1, dm_device_id = ''unknown'',
       dm_downloaded_version = 3, dm_downloaded_at = 2000\<rparr>]"
    by (simp add: downloaded_modules_record_download upsert_download_def download_key_def
          example_db_downloaded_def example_defs deviceId_or_unknown_def deviceId_def)
  have o: "map dm_downloaded_version (downloaded_modules example_db_downloaded) = [9]"
    by (simp add: example_db_downloaded_def example_defs)
  show ?thesis
    using record_download_upserts [OF h, of accepts_all example_request 2000 example_db
        accepts_all example_request 2000 GetSyncStatus] h e o
    by simp
qed

subsection \<open>C6: versions\<close>






subsection \<open>C9: the checkpoint of a caller without device id\<close>

lemma select_last_sync_log_append_null:
  "sl_device_id l = None \<Longrightarrow>
   select_last_sync_log u d (s\<lparr>sync_logs := sync_logs s @ [l]\<rparr>) = select_last_sync_log u d s"
  by (simp add: select_last_sync_log_def)

lemma select_last_sync_log_none:
  "list_all (\<lambda>l. sl_user_id l = u \<longrightarrow> sl_device_id l \<noteq> Some d) (sync_logs s) \<Longrightarrow>
   select_last_sync_log u d s = []"
proof -
  assume "list_all (\<lambda>l. sl_user_id l = u \<longrightarrow> sl_device_id l \<noteq> Some d) (sync_logs s)"
  then have "filter (\<lambda>l. sl_user_id l = u \<and> sl_device_id l = Some d) (sync_logs s) = []"
    by (auto simp: filter_empty_conv list_all_iff)
  then show ?thesis
    by (simp add: select_last_sync_log_def)
qed

text \<open>
  C9, as amended. For a caller without device id, \<open>GET sync/full\<close> appends its
  checkpoint with \<open>device_id = NULL\<close>, while \<open>GET sync/status\<close> reads under the key
  "unknown": the status of such a caller is the same after the full sync as before it, and
  it is \<open>lastSync = null\<close> whenever \<open>sync_logs\<close> held no row of that user under the
  literal device id "unknown".
\<close>

theorem device_less_checkpoint_not_seen:
  "deviceId req = None \<longrightarrow>
     (let result = compute_delta req lastSync now s;
          s' = snd (snd result)
      in sync_logs s' = sync_logs s @
           [\<lparr>sl_user_id = user_id req, sl_device_id = None, sl_sync_type = ''full'',
             sl_items_synced = length (dp_modules (fst result)) + length (dp_mecaAids (fst result)),
             sl_last_sync_at = now\<rparr>] \<and>
         deviceId_or_unknown req = ''unknown'' \<and>
         sp_lastSync (get_status req now' s') = sp_lastSync (get_status req now' s) \<and>
         (list_all (\<lambda>l. sl_user_id l = user_id req \<longrightarrow> sl_device_id l \<noteq> Some ''unknown'')
            (sync_logs s) \<longrightarrow>
          sp_lastSync (get_status req now' s') = None))"
proof
  assume d: "deviceId req = None"
  then have u: "deviceId_or_unknown req = ''unknown''"
    by (simp add: deviceId_or_unknown_def)
  let ?l = "\<lparr>sl_user_id = user_id req, sl_device_id = None, sl_sync_type = ''full'',
             sl_items_synced = length (dp_modules (fst (compute_delta req lastSync now s))) +
                               length (dp_mecaAids (fst (compute_delta req lastSync now s))),
             sl_last_sync_at = now\<rparr>"
  have s': "snd (snd (compute_delta req lastSync now s)) = s\<lparr>sync_logs := sync_logs s @ [?l]\<rparr>"
    using snd_compute_delta [of req lastSync now s] d by simp
  have same: "select_last_sync_log (user_id req) ''unknown'' (s\<lparr>sync_logs := sync_logs s @ [?l]\<rparr>) =
              select_last_sync_log (user_id req) ''unknown'' s"
    by (rule select_last_sync_log_append_null) simp
  have none: "sp_lastSync (get_status req now' s) = None"
    if "list_all (\<lambda>l. sl_user_id l = user_id req \<longrightarrow> sl_device_id l \<noteq> Some ''unknown'') (sync_logs s)"
    using select_last_sync_log_none [OF that] by (simp add: get_status_def u)
  have eq: "sp_lastSync (get_status req now' (s\<lparr>sync_logs := sync_logs s @ [?l]\<rparr>)) =
            sp_lastSync (get_status req now' s)"
    by (simp add: get_status_def u same Let_def)
  show "let result = compute_delta req lastSync now s;
          s' = snd (snd result)
      in sync_logs s' = sync_logs s @
           [\<lparr>sl_user_id = user_id req, sl_device_id = None, sl_sync_type = ''full'',
             sl_items_synced = length (dp_modules (fst result)) + length (dp_mecaAids (fst result)),
             sl_last_sync_at = now\<rparr>] \<and>
         deviceId_or_unknown req = ''unknown'' \<and>
         sp_lastSync (get_status req now' s') = sp_lastSync (get_status req now' s) \<and>
         (list_all (\<lambda>l. sl_user_id l = user_id req \<longrightarrow> sl_device_id l \<noteq> Some ''unknown'')
            (sync_logs s) \<longrightarrow>
          sp_lastSync (get_status req now' s') = None)"
    unfolding Let_def s' using u eq none by simp
qed

theorem device_less_checkpoint_not_seen_witness:
  "deviceId example_request = None \<and>
   map sl_device_id (sync_logs (snd (snd (compute_delta example_request None 2000 example_db)))) = [None] \<and>
   sp_lastSync (get_status example_request 3000
     (snd (snd (compute_delta example_request None 2000 example_db)))) = None"
proof -
  have d: "deviceId example_request = None"
    by (simp add: deviceId_def example_request_def)
  have l: "sync_logs example_db = []"
    by (simp add: example_db_def)
  have h: "list_all (\<lambda>l. sl_user_id l = user_id example_request \<longrightarrow>
                        sl_device_id l \<noteq> Some ''unknown'') (sync_logs example_db)"
    by (simp add: l)
  note t = device_less_checkpoint_not_seen [of example_request None 2000 example_db 3000,
      unfolded Let_def, THEN mp, OF d]
  from t have "sync_logs (snd (snd (compute_delta example_request None 2000 example_db))) =
      sync_logs example_db @
      [\<lparr>sl_user_id = user_id example_request, sl_device_id = None, sl_sync_type = ''full'',
        sl_items_synced = length (dp_modules (fst (compute_delta example_request None 2000 example_db))) +
                          length (dp_mecaAids (fst (compute_delta example_request None 2000 example_db))),
        sl_last_sync_at = 2000\<rparr>]"
    by (rule conjunct1)
  then have a: "map sl_device_id
      (sync_logs (snd (snd (compute_delta example_request None 2000 example_db)))) = [None]"
    by (simp add: l)
  from t h have "sp_lastSync (get_status example_request 3000
     (snd (snd (compute_delta example_request None 2000 example_db)))) = None"
    by blast
  with d a show ?thesis by simp
qed

text \<open>
  Against C9 as stated, for every such caller: user 5 has synced once from a client that
  sends \<open>X-Device-ID: unknown\<close>; the same user's status without device id, right after
  a full sync without device id, is that client's checkpoint and not \<open>null\<close>.
\<close>

theorem status_under_unknown_sees_other_checkpoint:
  "deviceId example_request = None \<and>
   sp_lastSync (get_status example_request 3000
     (snd (snd (compute_delta example_request None 2000 example_db_unknown_synced)))) =
   Some \<lparr>sl_user_id = 5, sl_device_id = Some ''unknown'', sl_sync_type = ''full'',
         sl_items_synced = 2, sl_last_sync_at = 1000\<rparr> \<and>
   sp_lastSync (get_status example_request 3000
     (snd (snd (compute_delta example_request None 2000 example_db_unknown_synced)))) \<noteq> None"
proof -
  have 1: "sync_logs example_db_unknown_synced =
     [\<lparr>sl_user_id = 5, sl_device_id = Some ''unknown'', sl_sync_type = ''full'',
         sl_items_synced = 2, sl_last_sync_at = 1000\<rparr>]"
    by (simp add: example_db_unknown_synced_def snd_compute_delta dp_modules_compute_delta
          dp_mecaAids_compute_delta length_attach_steps select_modules_since_def
          select_meca_aids_since_def example_defs example_request_unknown_def deviceId_def)
  have 2: "deviceId example_request = None"
    by (simp add: deviceId_def example_request_def)
  show ?thesis
    by (simp add: 2 get_status_def select_last_sync_log_def snd_compute_delta 1 deviceId_or_unknown_def
          Let_def) (simp add: example_request_def)
qed

end
